theory Spec2Isabelle
  imports Main "HOL-Library.AList"
begin

section \<open>Strings of the browser\<close>

text \<open>
  A JavaScript string is modelled as a list of Isabelle characters, each read as a code
  point below 256. The string methods the sources call are written out below with the
  behaviour ECMAScript gives them on such strings.
\<close>

text \<open>\<^verbatim>\<open>String.prototype.toLowerCase\<close>: on code points below 256 the letters A to Z and the
  capital letters of the upper half (192 to 222, the multiplication sign 215 apart)
  move up by 32; every other character stays.\<close>

definition toLowerChar :: "char \<Rightarrow> char" where
  "toLowerChar c =
     (let n = (of_char c :: nat)
      in if 65 \<le> n \<and> n \<le> 90 then char_of (n + 32)
         else if 192 \<le> n \<and> n \<le> 214 then char_of (n + 32)
         else if 216 \<le> n \<and> n \<le> 222 then char_of (n + 32)
         else c)"

definition toLowerCase :: "string \<Rightarrow> string" where
  "toLowerCase s = map toLowerChar s"

text \<open>The character class \<^verbatim>\<open>[a-z0-9]\<close>.\<close>

definition is_alnum :: "char \<Rightarrow> bool" where
  "is_alnum c =
     (let n = (of_char c :: nat)
      in (97 \<le> n \<and> n \<le> 122) \<or> (48 \<le> n \<and> n \<le> 57))"

text \<open>
  \<^verbatim>\<open>String.prototype.replace\<close> with a global regular expression and a constant
  replacement. The expression is given by its matcher: told whether the position is the
  start of the subject and given the text from the position on, the matcher returns the
  length of the match there, or 0 when there is none (neither expression of the sources
  matches the empty string). The scan goes left to right; after a match it resumes behind
  the match.
\<close>

function replace_all :: "(bool \<Rightarrow> string \<Rightarrow> nat) \<Rightarrow> string \<Rightarrow> bool \<Rightarrow> string \<Rightarrow> string" where
  "replace_all m rep at_start [] = []"
| "replace_all m rep at_start (c # cs) =
     (let n = m at_start (c # cs)
      in if n = 0 then c # replace_all m rep False cs
         else rep @ replace_all m rep False (drop n (c # cs)))"
  by pat_completeness auto
termination
  by (relation "measure (\<lambda>(m, rep, at_start, s). length s)") auto

text \<open>\<^verbatim>\<open>/[^a-z0-9]+/\<close>: the longest run of characters outside the class, from the
  position on.\<close>

definition match_non_alnum_run :: "bool \<Rightarrow> string \<Rightarrow> nat" where
  "match_non_alnum_run at_start s = length (takeWhile (\<lambda>c. \<not> is_alnum c) s)"

text \<open>\<^verbatim>\<open>/(^-|-$)/\<close>: a hyphen at the start of the subject, or else a hyphen that is the
  last character.\<close>

definition match_edge_hyphen :: "bool \<Rightarrow> string \<Rightarrow> nat" where
  "match_edge_hyphen at_start s =
     (if at_start \<and> take 1 s = ''-'' then 1
      else if s = ''-'' then 1
      else 0)"

text \<open>\<^verbatim>\<open>String.prototype.split\<close> with a separator of one character: at least one piece,
  and an empty piece between two separators and at either end.\<close>

fun split_on :: "char \<Rightarrow> string \<Rightarrow> string list" where
  "split_on sep [] = [[]]"
| "split_on sep (c # cs) =
     (if c = sep then [] # split_on sep cs
      else (case split_on sep cs of
              [] \<Rightarrow> [[c]]
            | p # ps \<Rightarrow> (c # p) # ps))"

text \<open>\<^verbatim>\<open>String.prototype.trim\<close>: white space below code point 256 is tab, line feed,
  vertical tab, form feed, carriage return, space and the no-break space.\<close>

definition is_space :: "char \<Rightarrow> bool" where
  "is_space c =
     (let n = (of_char c :: nat)
      in (9 \<le> n \<and> n \<le> 13) \<or> n = 32 \<or> n = 160)"

definition trim :: "string \<Rightarrow> string" where
  "trim s = rev (dropWhile is_space (rev (dropWhile is_space s)))"

definition startsWith :: "string \<Rightarrow> string \<Rightarrow> bool" where
  "startsWith s p = (take (length p) s = p)"

text \<open>\<^verbatim>\<open>Array.prototype.join\<close>.\<close>

fun join :: "string \<Rightarrow> string list \<Rightarrow> string" where
  "join sep [] = []"
| "join sep [x] = x"
| "join sep (x # y # ys) = x @ sep @ join sep (y # ys)"

text \<open>The decimal numeral of a natural number and of an integer, as
  \<^verbatim>\<open>Number.prototype.toString\<close> prints them.\<close>

definition digit_char :: "nat \<Rightarrow> char" where
  "digit_char d = ''0123456789'' ! d"

fun show_nat :: "nat \<Rightarrow> string" where
  "show_nat n =
     (if n < 10 then [digit_char n]
      else show_nat (n div 10) @ [digit_char (n mod 10)])"

declare show_nat.simps [simp del]

definition show_int :: "int \<Rightarrow> string" where
  "show_int i = (if i < 0 then CHR ''-'' # show_nat (nat (- i)) else show_nat (nat i))"

section \<open>Slug derivation\<close>

text \<open>
  \<^verbatim>\<open>generateSlug\<close> of the Products and Categories pages:
  \<^verbatim>\<open>name.toLowerCase().replace(/[^a-z0-9]+/g, '-').replace(/(^-|-$)/g, '')\<close>.
\<close>

definition generateSlug :: "string \<Rightarrow> string" where
  "generateSlug name =
     replace_all match_edge_hyphen '''' True
       (replace_all match_non_alnum_run ''-'' True (toLowerCase name))"

text \<open>
  The specification's reading of the same function, in three steps. The maximal runs of a
  string are its longest blocks of neighbours that agree on membership in the class.
\<close>

fun runs :: "('a \<Rightarrow> bool) \<Rightarrow> 'a list \<Rightarrow> 'a list list" where
  "runs P [] = []"
| "runs P (x # xs) =
     (case runs P xs of
        [] \<Rightarrow> [[x]]
      | r # rs \<Rightarrow> if P x = P (hd r) then (x # r) # rs else [x] # r # rs)"

definition spec_collapse_runs :: "string \<Rightarrow> string" where
  "spec_collapse_runs s =
     concat (map (\<lambda>r. if is_alnum (hd r) then r else ''-'') (runs is_alnum s))"

definition spec_strip_hyphens :: "string \<Rightarrow> string" where
  "spec_strip_hyphens s =
     rev (dropWhile (\<lambda>c. c = CHR ''-'') (rev (dropWhile (\<lambda>c. c = CHR ''-'') s)))"

definition spec_slug :: "string \<Rightarrow> string" where
  "spec_slug name = spec_strip_hyphens (spec_collapse_runs (map toLowerChar name))"

fun no_double_hyphen :: "string \<Rightarrow> bool" where
  "no_double_hyphen (a # b # r) =
     (if a = CHR ''-'' \<and> b = CHR ''-'' then False else no_double_hyphen (b # r))"
| "no_double_hyphen _ = True"

section \<open>JavaScript values\<close>

text \<open>
  Response bodies and the page state typed \<^verbatim>\<open>any\<close> are JavaScript values. Numbers are
  modelled as integers (a JSON body holds no NaN), an object as the list of its own
  properties in insertion order, the first binding of a name being the property.
\<close>

datatype jsval =
    Undefined
  | Null
  | Bool bool
  | Num int
  | Str string
  | Arr "jsval list"
  | Obj "(string \<times> jsval) list"

text \<open>What the sources throw or reject with: the \<^verbatim>\<open>TypeError\<close> of a property read on
  \<^verbatim>\<open>null\<close> or \<^verbatim>\<open>undefined\<close> (and of a method call on a value that has no such method),
  the rejection of an HTTP call with the status of its response (none when no response
  arrived), and \<^verbatim>\<open>new Error(message)\<close>.\<close>

datatype error =
    TypeError
  | RequestFailed "nat option"
  | Error string

text \<open>Truthiness, as \<^verbatim>\<open>||\<close>, \<^verbatim>\<open>&&\<close>, \<^verbatim>\<open>!\<close> and \<^verbatim>\<open>if\<close> test it.\<close>

fun truthy :: "jsval \<Rightarrow> bool" where
  "truthy Undefined = False"
| "truthy Null = False"
| "truthy (Bool b) = b"
| "truthy (Num n) = (if n = 0 then False else True)"
| "truthy (Str s) = (if s = [] then False else True)"
| "truthy (Arr xs) = True"
| "truthy (Obj kvs) = True"

text \<open>The own properties of a value: those of an object, the indices of an array and of
  a string. They are what a property read finds and what object spread copies.\<close>

fun own_props :: "jsval \<Rightarrow> (string \<times> jsval) list" where
  "own_props (Obj kvs) = kvs"
| "own_props (Arr xs) = zip (map show_nat [0 ..< length xs]) xs"
| "own_props (Str s) = zip (map show_nat [0 ..< length s]) (map (\<lambda>c. Str [c]) s)"
| "own_props _ = []"

text \<open>A property read \<^verbatim>\<open>v.k\<close>: a \<^verbatim>\<open>TypeError\<close> on \<^verbatim>\<open>null\<close> and \<^verbatim>\<open>undefined\<close>,
  \<^verbatim>\<open>undefined\<close> for a property that is not there. Arrays and strings have their
  \<^verbatim>\<open>length\<close>; the methods of the prototypes are not read as properties by the sources.\<close>

fun get_prop :: "jsval \<Rightarrow> string \<Rightarrow> error + jsval" where
  "get_prop Undefined k = Inl TypeError"
| "get_prop Null k = Inl TypeError"
| "get_prop (Arr xs) k =
     Inr (if k = ''length'' then Num (int (length xs))
          else (case map_of (own_props (Arr xs)) k of None \<Rightarrow> Undefined | Some v \<Rightarrow> v))"
| "get_prop (Str s) k =
     Inr (if k = ''length'' then Num (int (length s))
          else (case map_of (own_props (Str s)) k of None \<Rightarrow> Undefined | Some v \<Rightarrow> v))"
| "get_prop v k =
     Inr (case map_of (own_props v) k of None \<Rightarrow> Undefined | Some x \<Rightarrow> x)"

text \<open>\<^verbatim>\<open>String(v)\<close>, the conversion behind a template literal and behind the value argument
  of \<^verbatim>\<open>localStorage.setItem\<close>.\<close>

fun to_string :: "jsval \<Rightarrow> string" where
  "to_string Undefined = ''undefined''"
| "to_string Null = ''null''"
| "to_string (Bool b) = (if b then ''true'' else ''false'')"
| "to_string (Num n) = show_int n"
| "to_string (Str s) = s"
| "to_string (Arr xs) =
     join '','' (map (\<lambda>x. if x = Null then [] else if x = Undefined then [] else to_string x) xs)"
| "to_string (Obj kvs) = ''[object Object]''"

text \<open>\<^verbatim>\<open>Array.isArray(v) ? v : []\<close>.\<close>

fun array_or_empty :: "jsval \<Rightarrow> jsval list" where
  "array_or_empty (Arr xs) = xs"
| "array_or_empty _ = []"

section \<open>The response envelope\<close>

text \<open>
  Every page reads a response body with \<^verbatim>\<open>response.data.data || response.data\<close>: the
  \<^verbatim>\<open>data\<close> property of the body when it is truthy, the body itself otherwise. The read
  throws when the body is \<^verbatim>\<open>null\<close> or \<^verbatim>\<open>undefined\<close>.
\<close>

definition unwrap :: "jsval \<Rightarrow> error + jsval" where
  "unwrap body =
     (case get_prop body ''data'' of
        Inl e \<Rightarrow> Inl e
      | Inr inner \<Rightarrow> Inr (if truthy inner then inner else body))"

text \<open>The envelope the backend's interceptor builds around a payload.\<close>

definition envelope :: "jsval \<Rightarrow> jsval \<Rightarrow> jsval" where
  "envelope payload timestamp = Obj [(''data'', payload), (''timestamp'', timestamp)]"



section \<open>Browser state\<close>

text \<open>
  What the sources touch of the browser: local storage, the cookies of the document (all
  written with path \<^verbatim>\<open>/\<close>), and the path of the current location. The state also keeps
  the trace of the writes made, in order, so that properties can count them.
\<close>

datatype effect =
    SetItem string string
  | RemoveItem string
  | CookieAssign string
  | Navigate string

record browser =
  localStorage :: "(string \<times> string) list"
  cookies :: "(string \<times> string) list"
  pathname :: string
  effects :: "effect list"

definition getItem :: "string \<Rightarrow> browser \<Rightarrow> string option" where
  "getItem k b = map_of (localStorage b) k"

definition setItem :: "string \<Rightarrow> string \<Rightarrow> browser \<Rightarrow> browser" where
  "setItem k v b =
     b\<lparr>localStorage := AList.update k v (localStorage b),
       effects := effects b @ [SetItem k v]\<rparr>"

definition removeItem :: "string \<Rightarrow> browser \<Rightarrow> browser" where
  "removeItem k b =
     b\<lparr>localStorage := AList.delete k (localStorage b),
       effects := effects b @ [RemoveItem k]\<rparr>"

text \<open>
  An assignment to \<^verbatim>\<open>document.cookie\<close>. The browser splits the string at the semicolons;
  the first piece is \<^verbatim>\<open>name=value\<close>, cut at its first equals sign and trimmed, the other
  pieces are attributes. A cookie assigned with an expiry in the past is removed; the only
  such date the sources write is the epoch, and the \<^verbatim>\<open>max-age\<close> they write is positive.
\<close>

definition cookie_assign :: "string \<Rightarrow> (string \<times> string) list \<Rightarrow> (string \<times> string) list" where
  "cookie_assign s jar =
     (case split_on CHR '';'' s of
        [] \<Rightarrow> jar
      | nv # attrs \<Rightarrow>
          (let n = trim (takeWhile (\<lambda>c. c \<noteq> CHR ''='') nv);
               v = trim (drop 1 (dropWhile (\<lambda>c. c \<noteq> CHR ''='') nv))
           in if ''expires=Thu, 01 Jan 1970 00:00:00 GMT'' \<in> set (map trim attrs)
              then AList.delete n jar
              else AList.update n v jar))"

definition set_document_cookie :: "string \<Rightarrow> browser \<Rightarrow> browser" where
  "set_document_cookie s b =
     b\<lparr>cookies := cookie_assign s (cookies b),
       effects := effects b @ [CookieAssign s]\<rparr>"

text \<open>Reading \<^verbatim>\<open>document.cookie\<close>: the pairs \<^verbatim>\<open>name=value\<close>, joined by a semicolon and
  a space.\<close>

definition document_cookie :: "browser \<Rightarrow> string" where
  "document_cookie b = join ''; '' (map (\<lambda>(n, v). n @ ''='' @ v) (cookies b))"

text \<open>An assignment to \<^verbatim>\<open>window.location.href\<close>: the browser loads the page at the path.\<close>

definition set_location_href :: "string \<Rightarrow> browser \<Rightarrow> browser" where
  "set_location_href p b = b\<lparr>pathname := p, effects := effects b @ [Navigate p]\<rparr>"

section \<open>The API client (src/lib/api.ts)\<close>

record request_config =
  url :: string
  headers :: "(string \<times> string) list"

text \<open>\<^verbatim>\<open>xs[1]\<close> of an array: \<^verbatim>\<open>undefined\<close> beyond its end.\<close>

fun second :: "'a list \<Rightarrow> 'a option" where
  "second (x # y # ys) = Some y"
| "second _ = None"

text \<open>
  The request interceptor. The token is the item \<^verbatim>\<open>admin_token\<close> of local storage;
  when that is \<^verbatim>\<open>null\<close> or empty, the first piece of \<^verbatim>\<open>document.cookie\<close> that, trimmed,
  starts with \<^verbatim>\<open>admin_token=\<close> is split at its equals signs and the token is the second
  piece. A truthy token becomes the \<^verbatim>\<open>Authorization\<close> header; the configuration is
  returned in either case.
\<close>

definition stored_token :: "browser \<Rightarrow> string option" where
  "stored_token b =
     (let token = getItem ''admin_token'' b
      in if token = None \<or> token = Some []
         then (let cookies = split_on CHR '';'' (document_cookie b);
                   authCookie = find (\<lambda>cookie. startsWith (trim cookie) ''admin_token='') cookies
               in case authCookie of
                    None \<Rightarrow> token
                  | Some c \<Rightarrow> second (split_on CHR ''='' c))
         else token)"

definition request_interceptor :: "browser \<Rightarrow> request_config \<Rightarrow> request_config" where
  "request_interceptor b config =
     (case stored_token b of
        None \<Rightarrow> config
      | Some token \<Rightarrow>
          if token = [] then config
          else config\<lparr>headers := AList.update ''Authorization'' (''Bearer '' @ token) (headers config)\<rparr>)"

text \<open>
  The response interceptor's handler of a rejected call, given the status of the error's
  response (\<^verbatim>\<open>error.response?.status\<close>, none when there was no response). It always
  rejects with the same error, so only the browser state is returned.
\<close>

definition response_rejected :: "nat option \<Rightarrow> browser \<Rightarrow> browser" where
  "response_rejected status b =
     (if status = Some 401
      then (let b1 = removeItem ''admin_token'' b;
                b2 = set_document_cookie
                       ''admin_token=; path=/; expires=Thu, 01 Jan 1970 00:00:00 GMT'' b1
            in if pathname b2 \<noteq> ''/login'' then set_location_href ''/login'' b2 else b2)
      else b)"

section \<open>The authentication context\<close>

record auth =
  user :: jsval
  isAuthenticated :: bool
  isLoading :: bool

text \<open>
  \<^verbatim>\<open>login(email, password)\<close>. The parameter \<^verbatim>\<open>post\<close> is the backend seen through the API
  client: the outcome of \<^verbatim>\<open>await api.post(path, body)\<close>, a rejection or the body of the
  response. A rejection, a \<^verbatim>\<open>TypeError\<close> and the two errors thrown by hand leave the
  function before any write.
\<close>

definition login ::
  "(string \<Rightarrow> jsval \<Rightarrow> error + jsval) \<Rightarrow> string \<Rightarrow> string \<Rightarrow> browser \<times> auth
     \<Rightarrow> (error + unit) \<times> browser \<times> auth" where
  "login post email password st =
     (case post ''/auth/login'' (Obj [(''email'', Str email), (''password'', Str password)]) of
        Inl e \<Rightarrow> (Inl e, st)
      | Inr body \<Rightarrow>
     (case unwrap body of
        Inl e \<Rightarrow> (Inl e, st)
      | Inr responseData \<Rightarrow>
     (case get_prop responseData ''access_token'' of
        Inl e \<Rightarrow> (Inl e, st)
      | Inr access_token \<Rightarrow>
     (case get_prop responseData ''user'' of
        Inl e \<Rightarrow> (Inl e, st)
      | Inr userData \<Rightarrow>
          if \<not> truthy userData
          then (Inl (Error ''Invalid response: user data missing''), st)
          else
     (case get_prop userData ''role'' of
        Inl e \<Rightarrow> (Inl e, st)
      | Inr role \<Rightarrow>
          if role \<noteq> Str ''admin''
          then (Inl (Error ''Access denied. Admin privileges required.''), st)
          else
            (let b1 = setItem ''admin_token'' (to_string access_token) (fst st);
                 b2 = set_document_cookie
                        (''admin_token='' @ to_string access_token @ ''; path=/; max-age=''
                           @ show_nat (7 * 24 * 60 * 60) @ ''; SameSite=Lax'') b1
             in (Inr (), b2, (snd st)\<lparr>user := userData, isAuthenticated := True\<rparr>)))))))"



section \<open>Resource pages\<close>

text \<open>
  A page calls the backend through the API client. In the model the backend is a
  parameter of every function that awaits a call: \<^verbatim>\<open>get path\<close>, \<^verbatim>\<open>patch path body\<close> and
  \<^verbatim>\<open>post path body\<close> are the outcome of the awaited call, the error of the rejection or the
  body of the response. The state of a page keeps the list of the requests it has issued.
\<close>

datatype 'b request =
    Get string
  | Post string 'b
  | Patch string 'b
  | Delete string

record 'b page =
  loading :: bool
  showModal :: bool
  notifications :: "(string \<times> string) list"
  requests :: "'b request list"

definition addNotification :: "string \<Rightarrow> string \<Rightarrow> ('b, 'z) page_scheme \<Rightarrow> ('b, 'z) page_scheme" where
  "addNotification message kind p = p\<lparr>notifications := notifications p @ [(message, kind)]\<rparr>"

text \<open>
  The list fetch, the same on the five pages that hold a collection:
  \<^verbatim>\<open>try { response = await api.get(path); data = response.data.data || response.data;
  set(Array.isArray(data) ? data : []) } catch { set([]) } finally { setLoading(false) }\<close>.
  The function below is what the page's collection is set to.
\<close>

definition list_fetched :: "error + jsval \<Rightarrow> jsval list" where
  "list_fetched outcome =
     (case outcome of
        Inl e \<Rightarrow> []
      | Inr body \<Rightarrow>
          (case unwrap body of
             Inl e \<Rightarrow> []
           | Inr listData \<Rightarrow> array_or_empty listData))"

text \<open>A list fetch fails when the call is rejected or when reading the body throws.\<close>

definition fetch_failed :: "error + jsval \<Rightarrow> bool" where
  "fetch_failed outcome =
     (case outcome of
        Inl e \<Rightarrow> True
      | Inr body \<Rightarrow> (case unwrap body of Inl e \<Rightarrow> True | Inr listData \<Rightarrow> False))"

record categories_page = "jsval page" +
  categories :: "jsval list"

definition fetchCategories :: "(string \<Rightarrow> error + jsval) \<Rightarrow> categories_page \<Rightarrow> categories_page" where
  "fetchCategories get p =
     p\<lparr>requests := requests p @ [Get ''/categories''],
       categories := list_fetched (get ''/categories''),
       loading := False\<rparr>"

record faq_page = "jsval page" +
  faqs :: "jsval list"

definition fetchFAQs :: "(string \<Rightarrow> error + jsval) \<Rightarrow> faq_page \<Rightarrow> faq_page" where
  "fetchFAQs get p =
     p\<lparr>requests := requests p @ [Get ''/settings/faq''],
       faqs := list_fetched (get ''/settings/faq''),
       loading := False\<rparr>"

record about_us_page = "jsval page" +
  aboutUsSections :: "jsval list"

definition fetchAboutUs :: "(string \<Rightarrow> error + jsval) \<Rightarrow> about_us_page \<Rightarrow> about_us_page" where
  "fetchAboutUs get p =
     p\<lparr>requests := requests p @ [Get ''/settings/about-us''],
       aboutUsSections := list_fetched (get ''/settings/about-us''),
       loading := False\<rparr>"

subsection \<open>The Orders page\<close>

record orders_page = "jsval page" +
  orders :: "jsval list"
  selectedOrder :: jsval

definition fetchOrders :: "(string \<Rightarrow> error + jsval) \<Rightarrow> orders_page \<Rightarrow> orders_page" where
  "fetchOrders get p =
     p\<lparr>requests := requests p @ [Get ''/orders/admin/all''],
       orders := list_fetched (get ''/orders/admin/all''),
       loading := False\<rparr>"

text \<open>
  \<^verbatim>\<open>updateStatus(id, status)\<close>, the parameter \<^verbatim>\<open>id\<close> written \<open>oid\<close>. The list is
  fetched again after a successful PATCH; the order shown in the detail modal, when it is
  the one updated, is rebuilt from the value the handler closed over,
  \<^verbatim>\<open>{ ...selectedOrder, status }\<close>. Every failure is caught inside.
\<close>

definition updateStatus ::
  "(string \<Rightarrow> jsval \<Rightarrow> error + jsval) \<Rightarrow> (string \<Rightarrow> error + jsval) \<Rightarrow> string \<Rightarrow> string
     \<Rightarrow> orders_page \<Rightarrow> orders_page" where
  "updateStatus patch get oid status p =
     (let path = ''/orders/'' @ oid @ ''/status'';
          body = Obj [(''status'', Str status)];
          p1 = p\<lparr>requests := requests p @ [Patch path body]\<rparr>
      in case patch path body of
           Inl e \<Rightarrow> addNotification ''Failed to update order status'' ''error'' p1
         | Inr r \<Rightarrow>
             (let p2 = addNotification ''Order status updated successfully'' ''success'' p1;
                  p3 = fetchOrders get p2
              in if truthy (selectedOrder p) \<and> get_prop (selectedOrder p) ''id'' = Inr (Str oid)
                 then p3\<lparr>selectedOrder :=
                          Obj (AList.update ''status'' (Str status) (own_props (selectedOrder p)))\<rparr>
                 else p3))"


definition closeModal :: "orders_page \<Rightarrow> orders_page" where
  "closeModal p = p\<lparr>showModal := False, selectedOrder := Null\<rparr>"

text \<open>\<^verbatim>\<open>closeOrder(orderId)\<close>: \<^verbatim>\<open>updateStatus\<close> never throws, so the lines after the
  \<^verbatim>\<open>await\<close> always run.\<close>

definition closeOrder ::
  "(string \<Rightarrow> jsval \<Rightarrow> error + jsval) \<Rightarrow> (string \<Rightarrow> error + jsval) \<Rightarrow> string
     \<Rightarrow> orders_page \<Rightarrow> orders_page" where
  "closeOrder patch get orderId p =
     closeModal (addNotification ''Order closed successfully'' ''success''
                   (updateStatus patch get orderId ''delivered'' p))"

text \<open>
  The controls bound to an order, in its table row and in the detail modal. The status
  select offers the same five options whatever the status of the order; its change event
  carries the option chosen, which differs from the value shown, the status of the order.
  The handler is \<^verbatim>\<open>updateStatus(order.id, e.target.value)\<close>. The Close Order button is
  rendered unless the order is delivered or cancelled. A control that is not there, or an
  event it cannot raise, yields no state.
\<close>

definition status_options :: "string list" where
  "status_options = [''pending'', ''processing'', ''shipped'', ''delivered'', ''cancelled'']"

definition status_select ::
  "(string \<Rightarrow> jsval \<Rightarrow> error + jsval) \<Rightarrow> (string \<Rightarrow> error + jsval) \<Rightarrow> jsval \<Rightarrow> string
     \<Rightarrow> orders_page \<Rightarrow> orders_page option" where
  "status_select patch get order v p =
     (case get_prop order ''id'' of
        Inr (Str oid) \<Rightarrow>
          if v \<in> set status_options \<and> get_prop order ''status'' \<noteq> Inr (Str v)
          then Some (updateStatus patch get oid v p)
          else None
      | _ \<Rightarrow> None)"

definition close_order_button ::
  "(string \<Rightarrow> jsval \<Rightarrow> error + jsval) \<Rightarrow> (string \<Rightarrow> error + jsval) \<Rightarrow> jsval
     \<Rightarrow> orders_page \<Rightarrow> orders_page option" where
  "close_order_button patch get order p =
     (case get_prop order ''id'' of
        Inr (Str oid) \<Rightarrow>
          if get_prop order ''status'' \<noteq> Inr (Str ''delivered'')
             \<and> get_prop order ''status'' \<noteq> Inr (Str ''cancelled'')
          then Some (closeOrder patch get oid p)
          else None
      | _ \<Rightarrow> None)"

text \<open>The row of index \<open>i\<close> of the table, and the modal, rendered when
  \<^verbatim>\<open>showModal && selectedOrder\<close>.\<close>

definition row_select_change ::
  "(string \<Rightarrow> jsval \<Rightarrow> error + jsval) \<Rightarrow> (string \<Rightarrow> error + jsval) \<Rightarrow> nat \<Rightarrow> string
     \<Rightarrow> orders_page \<Rightarrow> orders_page option" where
  "row_select_change patch get i v p =
     (if i < length (orders p) then status_select patch get (orders p ! i) v p else None)"

definition row_close_order ::
  "(string \<Rightarrow> jsval \<Rightarrow> error + jsval) \<Rightarrow> (string \<Rightarrow> error + jsval) \<Rightarrow> nat
     \<Rightarrow> orders_page \<Rightarrow> orders_page option" where
  "row_close_order patch get i p =
     (if i < length (orders p) then close_order_button patch get (orders p ! i) p else None)"

definition modal_select_change ::
  "(string \<Rightarrow> jsval \<Rightarrow> error + jsval) \<Rightarrow> (string \<Rightarrow> error + jsval) \<Rightarrow> string
     \<Rightarrow> orders_page \<Rightarrow> orders_page option" where
  "modal_select_change patch get v p =
     (if showModal p \<and> truthy (selectedOrder p)
      then status_select patch get (selectedOrder p) v p else None)"

definition modal_close_order ::
  "(string \<Rightarrow> jsval \<Rightarrow> error + jsval) \<Rightarrow> (string \<Rightarrow> error + jsval)
     \<Rightarrow> orders_page \<Rightarrow> orders_page option" where
  "modal_close_order patch get p =
     (if showModal p \<and> truthy (selectedOrder p)
      then close_order_button patch get (selectedOrder p) p else None)"

text \<open>The requests a handler has added to those of the page.\<close>

definition issued :: "('b, 'z) page_scheme \<Rightarrow> ('b, 'z) page_scheme \<Rightarrow> 'b request list" where
  "issued p p' = drop (length (requests p)) (requests p')"

fun is_patch :: "'b request \<Rightarrow> bool" where
  "is_patch (Patch path body) = True"
| "is_patch _ = False"

text \<open>The transitions the specification allows: one step along the chain, or cancellation
  from a status that is not terminal.\<close>

definition spec_transition :: "string \<Rightarrow> string \<Rightarrow> bool" where
  "spec_transition from to =
     ((from, to) \<in> {(''pending'', ''processing''), (''processing'', ''shipped''),
                    (''shipped'', ''delivered''), (''pending'', ''cancelled''),
                    (''processing'', ''cancelled''), (''shipped'', ''cancelled'')})"

subsection \<open>The Products page\<close>

text \<open>
  A product as the backend returns it, with the fields the interface declares and the three
  read through \<^verbatim>\<open>(product as any)\<close>. An optional field that is absent is \<open>None\<close>. The
  type \<open>'n\<close> stands for JavaScript numbers. The colours of a product are stored either as
  names (the current format) or as objects with a name (the former one); a list holds one
  format.
\<close>

record translation =
  name :: string
  description :: string

record stored_translations =
  en :: "translation option"
  ru :: "translation option"
  ar :: "translation option"

record form_translations =
  en :: translation
  ru :: translation
  ar :: translation

record legacy_color =
  id' :: string
  name :: string
  hex :: string

datatype colors = Names "string list" | Objects "legacy_color list"

record stored_variants =
  colors :: "colors option"
  storage :: "string list option"
  versions :: "string list option"

record form_variants =
  colors :: colors
  storage :: "string list"
  versions :: "string list"

record variants =
  colors :: "string list"
  storage :: "string list"
  versions :: "string list"

record 'n product =
  id' :: string
  name :: string
  slug :: string
  description :: "string option"
  price :: 'n
  categoryId :: "string option"
  images :: "string list"
  stock :: 'n
  featured :: bool
  badge :: "string option"
  specs :: "(string \<times> jsval) list option"
  variants :: "stored_variants option"
  translations' :: "stored_translations option"

text \<open>The body of the create and update requests, \<^verbatim>\<open>dataToSend\<close>.\<close>

record 'n payload =
  name :: string
  description :: string
  slug :: string
  images :: "string list"
  price :: 'n
  stock :: 'n
  categoryId :: "string option"
  featured :: bool
  badge :: "string option"
  specs :: "(string \<times> jsval) list"
  variants :: variants
  translations' :: form_translations

text \<open>The state of the form, \<^verbatim>\<open>formData\<close>; price and stock are the texts of their inputs.\<close>

record form =
  name :: string
  description :: string
  price :: string
  categoryId :: string
  images :: "string list"
  stock :: string
  featured :: bool
  badge :: string
  specs :: "(string \<times> jsval) list"
  variants :: form_variants
  translations' :: form_translations

record upload_file =
  ftype :: string
  fsize :: nat

datatype 'n product_body = ProductData "'n payload" | ImageFiles "upload_file list"

record 'n products_page = "'n product_body page" +
  products :: "jsval list"
  categories :: "jsval list"
  editingProduct :: "'n product option"
  saving :: bool
  uploadingImages :: bool
  formData :: form

definition fetchProducts ::
  "(string \<Rightarrow> error + jsval) \<Rightarrow> 'n products_page \<Rightarrow> 'n products_page" where
  "fetchProducts get p =
     p\<lparr>requests := requests p @ [Get ''/products''],
       products := list_fetched (get ''/products''),
       loading := False\<rparr>"

text \<open>\<^verbatim>\<open>x || ''\<close> for an optional string.\<close>

fun or_empty :: "string option \<Rightarrow> string" where
  "or_empty None = []"
| "or_empty (Some s) = s"

text \<open>\<^verbatim>\<open>x || undefined\<close> for a string.\<close>

definition or_undefined :: "string \<Rightarrow> string option" where
  "or_undefined s = (if s = [] then None else Some s)"

definition empty_form :: form where
  "empty_form =
     \<lparr>name = [], description = [], price = [], categoryId = [], images = [[]], stock = [],
      featured = False, badge = [], specs = [],
      variants = \<lparr>form_variants.colors = Names [], form_variants.storage = [],
                  form_variants.versions = []\<rparr>,
      translations' =
        \<lparr>form_translations.en = \<lparr>translation.name = [], translation.description = []\<rparr>,
         form_translations.ru = \<lparr>translation.name = [], translation.description = []\<rparr>,
         form_translations.ar = \<lparr>translation.name = [], translation.description = []\<rparr>\<rparr>\<rparr>"

definition openAddModal :: "'n products_page \<Rightarrow> 'n products_page" where
  "openAddModal p = p\<lparr>editingProduct := None, formData := empty_form, showModal := True\<rparr>"

text \<open>
  \<^verbatim>\<open>openEditModal(product)\<close>. The parameter \<open>toString\<close> is
  \<^verbatim>\<open>Number.prototype.toString\<close>. Colours in the former format, recognised by a first
  element that is an object with a truthy name, are replaced by their names.
\<close>

definition normalize_colors :: "colors \<Rightarrow> colors" where
  "normalize_colors cs =
     (case cs of
        Names ns \<Rightarrow> Names ns
      | Objects [] \<Rightarrow> Objects []
      | Objects (c # rest) \<Rightarrow>
          if legacy_color.name c = [] then Objects (c # rest)
          else Names (map legacy_color.name (c # rest)))"

definition openEditModal ::
  "('n \<Rightarrow> string) \<Rightarrow> 'n product \<Rightarrow> 'n products_page \<Rightarrow> 'n products_page" where
  "openEditModal toString product p =
     (let translations =
            (case product.translations' product of
               None \<Rightarrow> \<lparr>stored_translations.en = None, stored_translations.ru = None,
                         stored_translations.ar = None\<rparr>
             | Some t \<Rightarrow> t);
          specs = (case product.specs product of None \<Rightarrow> [] | Some s \<Rightarrow> s);
          variants =
            (case product.variants product of
               None \<Rightarrow> \<lparr>stored_variants.colors = Some (Names []),
                         stored_variants.storage = Some [], stored_variants.versions = Some []\<rparr>
             | Some v \<Rightarrow> v);
          colors =
            normalize_colors
              (case stored_variants.colors variants of None \<Rightarrow> Names [] | Some c \<Rightarrow> c);
          fallback =
            \<lparr>translation.name = product.name product,
             translation.description = or_empty (product.description product)\<rparr>
      in p\<lparr>editingProduct := Some product,
           formData :=
             \<lparr>name = product.name product,
              description = or_empty (product.description product),
              price = toString (product.price product),
              categoryId = or_empty (product.categoryId product),
              images = (if length (product.images product) > 0 then product.images product
                        else [[]]),
              stock = toString (product.stock product),
              featured = product.featured product,
              badge = or_empty (product.badge product),
              specs = specs,
              variants =
                \<lparr>form_variants.colors = colors,
                 form_variants.storage =
                   (case stored_variants.storage variants of None \<Rightarrow> [] | Some s \<Rightarrow> s),
                 form_variants.versions =
                   (case stored_variants.versions variants of None \<Rightarrow> [] | Some s \<Rightarrow> s)\<rparr>,
              translations' =
                \<lparr>form_translations.en =
                   (case stored_translations.en translations of None \<Rightarrow> fallback | Some t \<Rightarrow> t),
                 form_translations.ru =
                   (case stored_translations.ru translations of None \<Rightarrow> fallback | Some t \<Rightarrow> t),
                 form_translations.ar =
                   (case stored_translations.ar translations of None \<Rightarrow> fallback | Some t \<Rightarrow> t)\<rparr>\<rparr>,
           showModal := True\<rparr>)"

definition closeProductModal :: "'n products_page \<Rightarrow> 'n products_page" where
  "closeProductModal p = p\<lparr>showModal := False, editingProduct := None\<rparr>"

text \<open>
  \<^verbatim>\<open>xs.flatMap(x => x.split(',').map(s => s.trim())).filter(x => x !== '')\<close>, the
  treatment of each list of variants on submit.
\<close>

definition split_variants :: "string list \<Rightarrow> string list" where
  "split_variants xs =
     filter (\<lambda>x. x \<noteq> []) (concat (map (\<lambda>x. map trim (split_on CHR '','' x)) xs))"

text \<open>Colours still held as objects have no \<^verbatim>\<open>split\<close> method: the call throws on the first
  of them.\<close>

definition split_colors :: "colors \<Rightarrow> error + string list" where
  "split_colors cs =
     (case cs of
        Names ns \<Rightarrow> Inr (split_variants ns)
      | Objects [] \<Rightarrow> Inr []
      | Objects (c # rest) \<Rightarrow> Inl TypeError)"

text \<open>\<^verbatim>\<open>Number(text) || 0\<close>: the parameter \<open>Number\<close> is the conversion, \<open>None\<close> standing
  for NaN.\<close>

definition number_or_zero :: "(string \<Rightarrow> 'n option) \<Rightarrow> string \<Rightarrow> 'n::zero" where
  "number_or_zero Number s =
     (case Number s of None \<Rightarrow> 0 | Some v \<Rightarrow> if v = 0 then 0 else v)"

definition dataToSend :: "(string \<Rightarrow> 'n option) \<Rightarrow> form \<Rightarrow> error + ('n::zero) payload" where
  "dataToSend Number f =
     (case split_colors (form_variants.colors (variants f)) of
        Inl e \<Rightarrow> Inl e
      | Inr processedColors \<Rightarrow>
          Inr \<lparr>payload.name = name f,
               payload.description = description f,
               payload.slug = generateSlug (name f),
               payload.images = filter (\<lambda>img. trim img \<noteq> []) (images f),
               payload.price = number_or_zero Number (price f),
               payload.stock = number_or_zero Number (stock f),
               payload.categoryId = or_undefined (categoryId f),
               payload.featured = featured f,
               payload.badge = or_undefined (badge f),
               payload.specs = specs f,
               payload.variants =
                 \<lparr>variants.colors = processedColors,
                  variants.storage = split_variants (form_variants.storage (variants f)),
                  variants.versions = split_variants (form_variants.versions (variants f))\<rparr>,
               payload.translations' = translations' f\<rparr>)"

text \<open>
  \<^verbatim>\<open>handleSubmit\<close>. The parameter \<open>send\<close> is the outcome of the awaited PATCH or POST,
  \<open>get\<close> that of the list fetch that follows a success.
\<close>

definition submit_request :: "'n product option \<Rightarrow> 'n payload \<Rightarrow> 'n product_body request" where
  "submit_request editing d =
     (case editing of
        Some product \<Rightarrow> Patch (''/products/'' @ product.id' product) (ProductData d)
      | None \<Rightarrow> Post ''/products'' (ProductData d))"

definition handleSubmit ::
  "(string \<Rightarrow> 'n option) \<Rightarrow> ('n product_body request \<Rightarrow> error + jsval) \<Rightarrow> (string \<Rightarrow> error + jsval)
     \<Rightarrow> ('n::zero) products_page \<Rightarrow> 'n products_page" where
  "handleSubmit Number send get p =
     (let failed = addNotification
                     (if editingProduct p = None then ''Failed to create product''
                      else ''Failed to update product'') ''error''
      in case dataToSend Number (formData p) of
           Inl e \<Rightarrow> (failed p)\<lparr>saving := False\<rparr>
         | Inr d \<Rightarrow>
             (let r = submit_request (editingProduct p) d;
                  p1 = p\<lparr>requests := requests p @ [r]\<rparr>
              in case send r of
                   Inl e \<Rightarrow> (failed p1)\<lparr>saving := False\<rparr>
                 | Inr x \<Rightarrow>
                     (closeProductModal
                        (fetchProducts get
                           (addNotification
                              (if editingProduct p = None then ''Product created successfully''
                               else ''Product updated successfully'') ''success'' p1)))
                       \<lparr>saving := False\<rparr>))"

subsubsection \<open>The image fields of the form\<close>

definition addImageField :: "'n products_page \<Rightarrow> 'n products_page" where
  "addImageField p = p\<lparr>formData := (formData p)\<lparr>images := images (formData p) @ [[]]\<rparr>\<rparr>"

text \<open>\<^verbatim>\<open>xs.filter((_, i) => i !== index)\<close>.\<close>

definition remove_at :: "nat \<Rightarrow> 'a list \<Rightarrow> 'a list" where
  "remove_at index xs = take index xs @ drop (Suc index) xs"

definition removeImageField :: "nat \<Rightarrow> 'n products_page \<Rightarrow> 'n products_page" where
  "removeImageField index p =
     (let newImages = remove_at index (images (formData p))
      in p\<lparr>formData := (formData p)\<lparr>images := (if length newImages > 0 then newImages else [[]])\<rparr>\<rparr>)"

text \<open>\<^verbatim>\<open>newImages[index] = value\<close> on a copy: an index beyond the end extends the array,
  the holes in between read as \<^verbatim>\<open>undefined\<close>; the inputs of the form only pass indices
  of existing fields, and the model leaves the list alone otherwise.\<close>

definition updateImageField :: "nat \<Rightarrow> string \<Rightarrow> 'n products_page \<Rightarrow> 'n products_page" where
  "updateImageField index v p =
     p\<lparr>formData := (formData p)\<lparr>images := (images (formData p))[index := v]\<rparr>\<rparr>"

text \<open>
  \<^verbatim>\<open>handleImageUpload\<close>. The files are validated in order; the first that is not an
  image, or is larger than 5 MB, ends the handler with a notification.
\<close>

fun invalid_file :: "upload_file list \<Rightarrow> string option" where
  "invalid_file [] = None"
| "invalid_file (f # fs) =
     (if \<not> startsWith (ftype f) ''image/'' then Some ''Please select only image files''
      else if fsize f > 5 * 1024 * 1024 then Some ''Image size must be less than 5MB''
      else invalid_file fs)"

text \<open>
  The body of the upload's response, as far as the handler reads it:
  \<^verbatim>\<open>response.data.data?.images\<close> and \<^verbatim>\<open>response.data.images\<close>, each absent or an array
  of URLs. An array is truthy even when empty, so
  \<^verbatim>\<open>response.data.data?.images || response.data.images || []\<close> is the first of the two
  that is present.
\<close>

record upload_response =
  wrapped_images :: "string list option"
  raw_images :: "string list option"

definition uploadedImages :: "upload_response \<Rightarrow> string list" where
  "uploadedImages r =
     (case wrapped_images r of
        Some xs \<Rightarrow> xs
      | None \<Rightarrow> (case raw_images r of Some ys \<Rightarrow> ys | None \<Rightarrow> []))"

definition handleImageUpload ::
  "('n product_body request \<Rightarrow> error + upload_response) \<Rightarrow> upload_file list
     \<Rightarrow> 'n products_page \<Rightarrow> 'n products_page" where
  "handleImageUpload post files p =
     (if files = [] then p
      else (case invalid_file files of
              Some message \<Rightarrow> addNotification message ''error'' p
            | None \<Rightarrow>
                (let r = Post ''/products/images'' (ImageFiles files);
                     p1 = p\<lparr>uploadingImages := True, requests := requests p @ [r]\<rparr>
                 in case post r of
                      Inl e \<Rightarrow>
                        (addNotification ''Failed to upload images'' ''error'' p1)
                          \<lparr>uploadingImages := False\<rparr>
                    | Inr response \<Rightarrow>
                        (let uploaded = uploadedImages response;
                             currentImages = filter (\<lambda>img. img \<noteq> []) (images (formData p))
                         in (addNotification
                               (show_nat (length uploaded) @ '' image(s) uploaded successfully'')
                               ''success''
                               (p1\<lparr>formData := (formData p)\<lparr>images := currentImages @ uploaded\<rparr>\<rparr>))
                              \<lparr>uploadingImages := False\<rparr>))))"

subsubsection \<open>The round trip through the edit form, as the specification words it\<close>

text \<open>
  The fields of the payload equal those of the record: each field of the payload holds what
  the record stores under the same name, the slug being the one derived from the name.
\<close>

definition spec_payload_matches :: "'n product \<Rightarrow> 'n payload \<Rightarrow> bool" where
  "spec_payload_matches product d =
     (payload.name d = product.name product
      \<and> Some (payload.description d) = product.description product
      \<and> payload.slug d = generateSlug (product.name product)
      \<and> payload.images d = product.images product
      \<and> payload.price d = product.price product
      \<and> payload.stock d = product.stock product
      \<and> payload.categoryId d = product.categoryId product
      \<and> payload.featured d = product.featured product
      \<and> payload.badge d = product.badge product
      \<and> Some (payload.specs d) = product.specs product
      \<and> Some \<lparr>stored_variants.colors = Some (Names (variants.colors (payload.variants d))),
               stored_variants.storage = Some (variants.storage (payload.variants d)),
               stored_variants.versions = Some (variants.versions (payload.variants d))\<rparr>
          = product.variants product
      \<and> Some \<lparr>stored_translations.en = Some (form_translations.en (payload.translations' d)),
               stored_translations.ru = Some (form_translations.ru (payload.translations' d)),
               stored_translations.ar = Some (form_translations.ar (payload.translations' d))\<rparr>
          = product.translations' product)"

text \<open>Entries of a list of variants that the submit handler leaves alone: trimmed, free of
  commas and not empty.\<close>

definition normal_entries :: "string list \<Rightarrow> bool" where
  "normal_entries xs = list_all (\<lambda>x. trim x = x \<and> CHR '','' \<notin> set x \<and> x \<noteq> []) xs"

section \<open>Concrete states and backends\<close>

text \<open>The inputs at which the properties below are evaluated.\<close>

definition login_page_browser :: browser where
  "login_page_browser = \<lparr>localStorage = [], cookies = [], pathname = ''/login'', effects = []\<rparr>"

definition signed_out :: auth where
  "signed_out = \<lparr>user = Null, isAuthenticated = False, isLoading = False\<rparr>"

definition admin_user :: jsval where
  "admin_user = Obj [(''id'', Str ''u1''), (''email'', Str ''root@shop.test''), (''role'', Str ''admin'')]"

definition customer_user :: jsval where
  "customer_user = Obj [(''id'', Str ''u2''), (''email'', Str ''ann@shop.test''), (''role'', Str ''customer'')]"

text \<open>A backend that answers the login of an administrator, in the envelope; one that
  answers the login of a customer, without it; and one whose answer lacks the user.\<close>

definition backend_admin :: "string \<Rightarrow> jsval \<Rightarrow> error + jsval" where
  "backend_admin path body =
     Inr (envelope (Obj [(''access_token'', Str ''tok123''), (''user'', admin_user)])
            (Str ''2024-01-01T00:00:00Z''))"

definition backend_customer :: "string \<Rightarrow> jsval \<Rightarrow> error + jsval" where
  "backend_customer path body =
     Inr (Obj [(''access_token'', Str ''tok456''), (''user'', customer_user)])"

definition backend_no_user :: "string \<Rightarrow> jsval \<Rightarrow> error + jsval" where
  "backend_no_user path body = Inr (Obj [(''access_token'', Str ''tok789'')])"

text \<open>A backend that rejects every call with status 500, and pages that still show an
  item of an earlier fetch and their loading indicator.\<close>

definition failing_backend :: "string \<Rightarrow> error + jsval" where
  "failing_backend path = Inl (RequestFailed (Some 500))"

definition stale_item :: jsval where
  "stale_item = Obj [(''id'', Str ''x1''), (''name'', Str ''kept from an earlier fetch'')]"

definition stale_products_page :: "int products_page" where
  "stale_products_page =
     \<lparr>loading = True, showModal = False, notifications = [], requests = [],
      products = [stale_item], categories = [], editingProduct = None, saving = False,
      uploadingImages = False, formData = empty_form\<rparr>"

definition stale_categories_page :: categories_page where
  "stale_categories_page =
     \<lparr>loading = True, showModal = False, notifications = [], requests = [],
      categories_page.categories = [stale_item]\<rparr>"

definition stale_faq_page :: faq_page where
  "stale_faq_page =
     \<lparr>loading = True, showModal = False, notifications = [], requests = [],
      faqs = [stale_item]\<rparr>"

definition stale_about_us_page :: about_us_page where
  "stale_about_us_page =
     \<lparr>loading = True, showModal = False, notifications = [], requests = [],
      aboutUsSections = [stale_item]\<rparr>"

definition stale_orders_page :: orders_page where
  "stale_orders_page =
     \<lparr>loading = True, showModal = False, notifications = [], requests = [],
      orders = [Obj [(''id'', Str ''o1''), (''status'', Str ''pending'')]],
      selectedOrder = Null\<rparr>"

text \<open>A backend that accepts every PATCH, and an Orders page whose modal shows a
  shipped order; a page whose table holds a delivered order.\<close>

definition accepting_backend :: "string \<Rightarrow> jsval \<Rightarrow> error + jsval" where
  "accepting_backend path body = Inr (Obj [(''ok'', Bool True)])"

definition shipped_order :: jsval where
  "shipped_order =
     Obj [(''id'', Str ''o7''), (''status'', Str ''shipped''), (''total'', Num 1299),
          (''items'', Arr [Obj [(''id'', Str ''i1''), (''quantity'', Num 1)]])]"

definition modal_open_page :: orders_page where
  "modal_open_page =
     \<lparr>loading = False, showModal = True, notifications = [], requests = [],
      orders = [Obj [(''id'', Str ''o7''), (''status'', Str ''shipped''), (''total'', Num 1299)]],
      selectedOrder = shipped_order\<rparr>"

definition delivered_page :: orders_page where
  "delivered_page =
     \<lparr>loading = False, showModal = False, notifications = [], requests = [],
      orders = [Obj [(''id'', Str ''o1''), (''status'', Str ''delivered'')]],
      selectedOrder = Null\<rparr>"

text \<open>
  An instance of the two number conversions, on integers: the decimal numeral of an integer,
  and the reading of such numerals, with the empty text read as 0. Any other text is not the
  numeral of an integer and is NaN in this instance.
\<close>

definition digit_value :: "char \<Rightarrow> nat option" where
  "digit_value c =
     (let n = (of_char c :: nat)
      in if 48 \<le> n \<and> n \<le> 57 then Some (n - 48) else None)"

fun read_digits :: "nat \<Rightarrow> string \<Rightarrow> nat option" where
  "read_digits acc [] = Some acc"
| "read_digits acc (c # cs) =
     (case digit_value c of
        None \<Rightarrow> None
      | Some d \<Rightarrow> read_digits (10 * acc + d) cs)"

definition read_int :: "string \<Rightarrow> int option" where
  "read_int s =
     (case s of
        [] \<Rightarrow> Some 0
      | c # cs \<Rightarrow>
          if c = CHR ''-''
          then (if cs = [] then None else map_option (\<lambda>n. - int n) (read_digits 0 cs))
          else map_option int (read_digits 0 s))"

text \<open>A product stored in full, and one from before translations and colour names were
  stored.\<close>

definition iphone :: "int product" where
  "iphone =
     \<lparr>product.id' = ''p1'', product.name = ''iPhone 15 Pro!'', product.slug = ''iphone'',
      product.description = Some ''Titanium design'', product.price = 1299,
      product.categoryId = Some ''c1'',
      product.images = [''/uploads/iphone-front.png'', ''https://cdn.shop.test/iphone-back.png''],
      product.stock = 5, product.featured = True, product.badge = None,
      product.specs = Some [(''chip'', Str ''A17 Pro'')],
      product.variants =
        Some \<lparr>stored_variants.colors = Some (Names [''Black'', ''Natural Titanium'']),
              stored_variants.storage = Some [''128GB'', ''256GB''],
              stored_variants.versions = Some []\<rparr>,
      product.translations' =
        Some \<lparr>stored_translations.en =
                Some \<lparr>translation.name = ''iPhone 15 Pro'',
                      translation.description = ''Titanium design''\<rparr>,
              stored_translations.ru =
                Some \<lparr>translation.name = ''iPhone 15 Pro'',
                      translation.description = ''Titan''\<rparr>,
              stored_translations.ar =
                Some \<lparr>translation.name = ''iPhone 15 Pro'',
                      translation.description = []\<rparr>\<rparr>\<rparr>"

definition legacy_phone :: "int product" where
  "legacy_phone =
     \<lparr>product.id' = ''p0'', product.name = ''Phone'', product.slug = ''phone'',
      product.description = Some ''First model'', product.price = 99,
      product.categoryId = Some ''c1'',
      product.images = [''/uploads/phone.png''],
      product.stock = 0, product.featured = False, product.badge = None,
      product.specs = Some [],
      product.variants =
        Some \<lparr>stored_variants.colors =
                Some (Objects [\<lparr>legacy_color.id' = ''k1'', legacy_color.name = ''Black'',
                               legacy_color.hex = ''#000000''\<rparr>]),
              stored_variants.storage = Some [],
              stored_variants.versions = Some []\<rparr>,
      product.translations' = None\<rparr>"

definition initial_products_page :: "int products_page" where
  "initial_products_page =
     \<lparr>loading = False, showModal = False, notifications = [], requests = [],
      products = [], categories = [], editingProduct = None, saving = False,
      uploadingImages = False, formData = empty_form\<rparr>"

text \<open>An upload of one image that the backend answers with no image, and a backend whose
  access token ends in an equals sign, with the browser its login leaves once local storage
  has been cleared.\<close>

definition png_file :: upload_file where
  "png_file = \<lparr>ftype = ''image/png'', fsize = 204800\<rparr>"

definition upload_backend_no_images :: "int product_body request \<Rightarrow> error + upload_response" where
  "upload_backend_no_images r = Inr \<lparr>wrapped_images = None, raw_images = Some []\<rparr>"

definition backend_padded_token :: "string \<Rightarrow> jsval \<Rightarrow> error + jsval" where
  "backend_padded_token path body =
     Inr (envelope (Obj [(''access_token'', Str ''YWRtaW4=''), (''user'', admin_user)])
            (Str ''2024-01-01T00:00:00Z''))"

definition cookie_only_browser :: browser where
  "cookie_only_browser =
     \<lparr>localStorage = [], cookies = [(''admin_token'', ''YWRtaW4='')],
      pathname = ''/products'', effects = []\<rparr>"

definition products_request :: request_config where
  "products_request = \<lparr>url = ''/products'', headers = [(''Content-Type'', ''application/json'')]\<rparr>"

text \<open>The body that the edit form of the older product sends, and a backend that rejects the
  submit.\<close>

definition legacy_phone_payload :: "int payload" where
  "legacy_phone_payload =
     \<lparr>payload.name = ''Phone'', payload.description = ''First model'',
      payload.slug = ''phone'', payload.images = [''/uploads/phone.png''],
      payload.price = 99, payload.stock = 0, payload.categoryId = Some ''c1'',
      payload.featured = False, payload.badge = None, payload.specs = [],
      payload.variants =
        \<lparr>variants.colors = [''Black''], variants.storage = [], variants.versions = []\<rparr>,
      payload.translations' =
        \<lparr>form_translations.en =
           \<lparr>translation.name = ''Phone'', translation.description = ''First model''\<rparr>,
         form_translations.ru =
           \<lparr>translation.name = ''Phone'', translation.description = ''First model''\<rparr>,
         form_translations.ar =
           \<lparr>translation.name = ''Phone'', translation.description = ''First model''\<rparr>\<rparr>\<rparr>"

definition submit_backend_down :: "int product_body request \<Rightarrow> error + jsval" where
  "submit_backend_down r = Inl (RequestFailed (Some 503))"

section \<open>Properties of the slug derivation\<close>

lemma is_alnum_not_hyphen: "is_alnum c \<Longrightarrow> c \<noteq> CHR ''-''"
  by (auto simp: is_alnum_def)

lemma runs_Cons_head: "\<exists>r rs. runs P (x # xs) = (x # r) # rs"
  by (cases "runs P xs") auto

lemma collapse_Nil: "spec_collapse_runs [] = []"
  by (simp add: spec_collapse_runs_def)

lemma collapse_alnum:
  assumes "is_alnum c"
  shows "spec_collapse_runs (c # cs) = c # spec_collapse_runs cs"
proof (cases cs)
  case Nil
  with assms show ?thesis by (simp add: spec_collapse_runs_def)
next
  case (Cons d ds)
  then obtain r rs where r: "runs is_alnum cs = (d # r) # rs"
    using runs_Cons_head [of is_alnum d ds] by auto
  with assms show ?thesis by (simp add: spec_collapse_runs_def)
qed

lemma collapse_non_alnum:
  assumes "\<not> is_alnum c"
  shows "spec_collapse_runs (c # cs) =
         CHR ''-'' # spec_collapse_runs (dropWhile (\<lambda>c. \<not> is_alnum c) cs)"
  using assms
proof (induction cs arbitrary: c)
  case Nil
  then show ?case by (simp add: spec_collapse_runs_def)
next
  case (Cons d ds)
  obtain r rs where r: "runs is_alnum (d # ds) = (d # r) # rs"
    using runs_Cons_head [of is_alnum d ds] by auto
  show ?case
  proof (cases "is_alnum d")
    case True
    with Cons.prems r show ?thesis
      by (simp add: spec_collapse_runs_def del: runs.simps(2)) (simp add: r)
  next
    case False
    have "spec_collapse_runs (c # d # ds) = spec_collapse_runs (d # ds)"
      using Cons.prems False r
      by (simp add: spec_collapse_runs_def del: runs.simps(2)) (simp add: r)
    with Cons.IH [OF False] False show ?thesis by simp
  qed
qed

lemma replace_runs_collapse:
  "replace_all match_non_alnum_run ''-'' b s = spec_collapse_runs s"
proof (induction "length s" arbitrary: s b rule: less_induct)
  case less
  show ?case
  proof (cases s)
    case Nil
    then show ?thesis by (simp add: collapse_Nil)
  next
    case (Cons c cs)
    show ?thesis
    proof (cases "is_alnum c")
      case True
      have "replace_all match_non_alnum_run ''-'' False cs = spec_collapse_runs cs"
        using less [of cs False] Cons by simp
      with True Cons show ?thesis
        by (simp add: match_non_alnum_run_def collapse_alnum)
    next
      case False
      let ?rest = "dropWhile (\<lambda>c. \<not> is_alnum c) cs"
      have len: "length ?rest < length s"
        using Cons length_dropWhile_le [of "\<lambda>c. \<not> is_alnum c" cs] by simp
      have d: "drop (length (takeWhile (\<lambda>c. \<not> is_alnum c) cs)) cs = ?rest"
        by (simp add: dropWhile_eq_drop)
      have "replace_all match_non_alnum_run ''-'' False ?rest = spec_collapse_runs ?rest"
        using less [OF len] .
      with False Cons d show ?thesis
        by (simp add: match_non_alnum_run_def collapse_non_alnum)
    qed
  qed
qed


lemma replace_edge_inner:
  "replace_all match_edge_hyphen [] False s =
     (if s \<noteq> [] \<and> last s = CHR ''-'' then butlast s else s)"
  by (induction s) (auto simp: match_edge_hyphen_def)

lemma replace_edge_start:
  "replace_all match_edge_hyphen [] True s =
     (let u = (if take 1 s = ''-'' then drop 1 s else s)
      in if u \<noteq> [] \<and> last u = CHR ''-'' then butlast u else u)"
  by (cases s) (auto simp: match_edge_hyphen_def replace_edge_inner)

lemma collapse_head_alnum:
  "s \<noteq> [] \<Longrightarrow> is_alnum (hd s) \<Longrightarrow>
   spec_collapse_runs s \<noteq> [] \<and> hd (spec_collapse_runs s) \<noteq> CHR ''-''"
  by (cases s) (auto simp: collapse_alnum is_alnum_not_hyphen)

lemma dropWhile_head: "dropWhile P xs \<noteq> [] \<Longrightarrow> \<not> P (hd (dropWhile P xs))"
  by (simp add: hd_dropWhile)

lemma no_double_Cons:
  "no_double_hyphen (a # t) = ((t = [] \<or> \<not> (a = CHR ''-'' \<and> hd t = CHR ''-'')) \<and> no_double_hyphen t)"
  by (cases t) auto

lemma no_double_collapse: "no_double_hyphen (spec_collapse_runs s)"
proof (induction "length s" arbitrary: s rule: less_induct)
  case less
  show ?case
  proof (cases s)
    case Nil
    then show ?thesis by (simp add: collapse_Nil)
  next
    case (Cons c cs)
    show ?thesis
    proof (cases "is_alnum c")
      case True
      have "no_double_hyphen (spec_collapse_runs cs)"
        using less [of cs] Cons by simp
      with True Cons show ?thesis
        by (simp add: collapse_alnum no_double_Cons is_alnum_not_hyphen)
    next
      case False
      let ?rest = "dropWhile (\<lambda>c. \<not> is_alnum c) cs"
      have len: "length ?rest < length s"
        using Cons length_dropWhile_le [of "\<lambda>c. \<not> is_alnum c" cs] by simp
      have nd: "no_double_hyphen (spec_collapse_runs ?rest)"
        using less [OF len] .
      have hd: "spec_collapse_runs ?rest = [] \<or> hd (spec_collapse_runs ?rest) \<noteq> CHR ''-''"
      proof (cases "?rest = []")
        case True
        then show ?thesis by (metis collapse_Nil)
      next
        case ne: False
        then have "is_alnum (hd ?rest)"
          using dropWhile_head [of "\<lambda>c. \<not> is_alnum c" cs] by simp
        with ne show ?thesis using collapse_head_alnum by blast
      qed
      from False Cons nd hd show ?thesis
        by (auto simp: collapse_non_alnum no_double_Cons)
    qed
  qed
qed

lemma no_double_leading:
  "no_double_hyphen t \<Longrightarrow>
   (if take 1 t = ''-'' then drop 1 t else t) = dropWhile (\<lambda>c. c = CHR ''-'') t"
  by (cases t rule: no_double_hyphen.cases) auto

lemma no_double_dropWhile:
  "no_double_hyphen t \<Longrightarrow> no_double_hyphen (dropWhile P t)"
  by (induction t rule: no_double_hyphen.induct) auto

lemma no_double_butlast:
  "no_double_hyphen u \<Longrightarrow> u \<noteq> [] \<Longrightarrow> last u = CHR ''-'' \<Longrightarrow>
   butlast u = [] \<or> last (butlast u) \<noteq> CHR ''-''"
  by (induction u rule: no_double_hyphen.induct) (auto split: if_splits)

lemma dropWhile_id: "xs = [] \<or> \<not> P (hd xs) \<Longrightarrow> dropWhile P xs = xs"
  by (cases xs) auto

lemma no_double_trailing:
  assumes "no_double_hyphen u"
  shows "(if u \<noteq> [] \<and> last u = CHR ''-'' then butlast u else u) =
         rev (dropWhile (\<lambda>c. c = CHR ''-'') (rev u))"
proof (cases "u \<noteq> [] \<and> last u = CHR ''-''")
  case True
  define v where "v = butlast u"
  have uv: "u = v @ ''-''"
    using True append_butlast_last_id [of u] by (simp add: v_def)
  have "v = [] \<or> last v \<noteq> CHR ''-''"
    using no_double_butlast [OF assms] True by (simp add: v_def)
  then have "rev v = [] \<or> hd (rev v) \<noteq> CHR ''-''"
    by (auto simp: hd_rev)
  then have "dropWhile (\<lambda>c. c = CHR ''-'') (rev v) = rev v"
    by (rule dropWhile_id)
  then have "rev (dropWhile (\<lambda>c. c = CHR ''-'') (rev u)) = v"
    by (simp add: uv)
  with True show ?thesis by (simp add: v_def)
next
  case False
  then have "rev u = [] \<or> hd (rev u) \<noteq> CHR ''-''"
    by (auto simp: hd_rev)
  then have "dropWhile (\<lambda>c. c = CHR ''-'') (rev u) = rev u"
    by (rule dropWhile_id)
  with False show ?thesis by auto
qed

lemma replace_edge_strip:
  assumes "no_double_hyphen t"
  shows "replace_all match_edge_hyphen [] True t = spec_strip_hyphens t"
proof -
  let ?u = "dropWhile (\<lambda>c. c = CHR ''-'') t"
  have l: "(if take 1 t = ''-'' then drop 1 t else t) = ?u"
    using no_double_leading [OF assms] .
  have "no_double_hyphen ?u"
    using assms by (rule no_double_dropWhile)
  then have r: "(if ?u \<noteq> [] \<and> last ?u = CHR ''-'' then butlast ?u else ?u) =
         rev (dropWhile (\<lambda>c. c = CHR ''-'') (rev ?u))"
    by (rule no_double_trailing)
  show ?thesis
    unfolding replace_edge_start spec_strip_hyphens_def Let_def l r ..
qed

lemma rev_dropWhile_rev_take:
  "rev (dropWhile P (rev u)) = take (length u - length (takeWhile P (rev u))) u"
  by (simp add: dropWhile_eq_drop rev_drop)

lemma take1_dropWhile: "P c \<Longrightarrow> take 1 (dropWhile P w) \<noteq> [c]"
proof (cases "dropWhile P w")
  case Nil
  then have "take 1 (dropWhile P w) = []" by (simp only: take.simps)
  then show ?thesis by (simp only:) simp
next
  case (Cons a as)
  assume "P c"
  moreover have "\<not> P a"
    using hd_dropWhile [of P w] Cons by simp
  ultimately show ?thesis using Cons by auto
qed

lemma take1_take: "take 1 (take k u) \<noteq> [c] \<or> take 1 u = [c]"
  by (cases k; cases u) auto

lemma strip_no_leading: "take 1 (spec_strip_hyphens t) \<noteq> ''-''"
proof -
  let ?u = "dropWhile (\<lambda>c. c = CHR ''-'') t"
  have "take 1 ?u \<noteq> ''-''"
    by (rule take1_dropWhile) simp
  then show ?thesis
    unfolding spec_strip_hyphens_def rev_dropWhile_rev_take
    using take1_take [of "length ?u - length (takeWhile (\<lambda>c. c = CHR ''-'') (rev ?u))" ?u "CHR ''-''"]
    by (simp only:) blast
qed

lemma strip_no_trailing: "take 1 (rev (spec_strip_hyphens t)) \<noteq> ''-''"
  unfolding spec_strip_hyphens_def rev_rev_ident
  by (rule take1_dropWhile) simp

text \<open>
  Claim C1. \<^verbatim>\<open>generateSlug\<close> is a function of its argument alone, and for every input
  string it is the composition the specification describes: the string is lowercased, every
  maximal run of characters outside \<^verbatim>\<open>[a-z0-9]\<close> becomes one hyphen, and the hyphens at
  the two ends are stripped, so that the slug neither starts nor ends with a hyphen. In
  particular the slug of \<^verbatim>\<open>iPhone 15 Pro!\<close> is \<^verbatim>\<open>iphone-15-pro\<close>.
\<close>

theorem generateSlug_spec:
  "generateSlug s = spec_slug s
   \<and> take 1 (generateSlug s) \<noteq> ''-''
   \<and> take 1 (rev (generateSlug s)) \<noteq> ''-''
   \<and> generateSlug ''iPhone 15 Pro!'' = ''iphone-15-pro''"
proof -
  have eq: "generateSlug s = spec_slug s"
    by (simp add: generateSlug_def spec_slug_def toLowerCase_def replace_runs_collapse
        replace_edge_strip no_double_collapse)
  have ex: "generateSlug ''iPhone 15 Pro!'' = ''iphone-15-pro''"
    by code_simp
  show ?thesis
    unfolding eq using ex strip_no_leading strip_no_trailing
    by (simp add: eq spec_slug_def)
qed

section \<open>Properties of the API client and of the login\<close>

lemma expire_cookie_assign:
  "cookie_assign ''admin_token=; path=/; expires=Thu, 01 Jan 1970 00:00:00 GMT'' jar
     = AList.delete ''admin_token'' jar"
  by (simp add: cookie_assign_def trim_def is_space_def)

text \<open>
  Claim C2. On a response with status 401 the handler removes the token from local storage
  once and expires the cookie once, and the location is \<^verbatim>\<open>/login\<close> afterwards: it
  navigates there exactly when the location was another one. A second 401, arriving when
  the location is \<^verbatim>\<open>/login\<close>, clears again and does not navigate; the stores and the
  location stay as the first left them.
\<close>

theorem response_401_clears_and_redirects:
  "(let b' = response_rejected (Some 401) b;
        b'' = response_rejected (Some 401) b'
    in getItem ''admin_token'' b' = None
       \<and> map_of (cookies b') ''admin_token'' = None
       \<and> pathname b' = ''/login''
       \<and> effects b' =
           effects b
           @ [RemoveItem ''admin_token'',
              CookieAssign ''admin_token=; path=/; expires=Thu, 01 Jan 1970 00:00:00 GMT'']
           @ (if pathname b = ''/login'' then [] else [Navigate ''/login''])
       \<and> effects b'' =
           effects b'
           @ [RemoveItem ''admin_token'',
              CookieAssign ''admin_token=; path=/; expires=Thu, 01 Jan 1970 00:00:00 GMT'']
       \<and> localStorage b'' = localStorage b'
       \<and> cookies b'' = cookies b'
       \<and> pathname b'' = pathname b')"
  by (simp add: response_rejected_def Let_def removeItem_def set_document_cookie_def
      set_location_href_def getItem_def expire_cookie_assign AList.delete_conv AList.delete_idem)

lemma seven_days: "show_nat 604800 = ''604800''"
  by (simp add: show_nat.simps digit_char_def)

text \<open>
  Claim C3, amended. Let the login call succeed with a body whose unwrapped content has the
  access token \<open>t\<close> and the user \<open>u\<close>. When \<open>u\<close> is missing, \<^verbatim>\<open>login\<close> throws the error
  \<^verbatim>\<open>Invalid response: user data missing\<close>; when the role of \<open>u\<close> is not \<^verbatim>\<open>admin\<close>, it
  throws \<^verbatim>\<open>Access denied. Admin privileges required.\<close>; in both cases the browser (local
  storage, cookies) and the authentication state are unchanged. Otherwise it returns, having
  stored the token under \<^verbatim>\<open>admin_token\<close> in local storage, assigned the cookie
  \<^verbatim>\<open>admin_token\<close> with path \<^verbatim>\<open>/\<close> and a max-age of 604800 seconds (seven days), and set the
  state to authenticated with that user.
\<close>

theorem login_outcomes:
  assumes "post ''/auth/login'' (Obj [(''email'', Str email), (''password'', Str password)]) = Inr body"
    and "unwrap body = Inr rd"
    and "get_prop rd ''access_token'' = Inr t"
    and "get_prop rd ''user'' = Inr u"
  shows
    "(case login post email password (b, a) of (r, b', a') \<Rightarrow>
        if \<not> truthy u
        then r = Inl (Error ''Invalid response: user data missing'') \<and> b' = b \<and> a' = a
        else if get_prop u ''role'' \<noteq> Inr (Str ''admin'')
        then r = Inl (Error ''Access denied. Admin privileges required.'') \<and> b' = b \<and> a' = a
        else r = Inr ()
             \<and> getItem ''admin_token'' b' = Some (to_string t)
             \<and> effects b' =
                 effects b
                 @ [SetItem ''admin_token'' (to_string t),
                    CookieAssign (''admin_token='' @ to_string t
                                    @ ''; path=/; max-age=604800; SameSite=Lax'')]
             \<and> cookies b' =
                 cookie_assign (''admin_token='' @ to_string t
                                  @ ''; path=/; max-age=604800; SameSite=Lax'') (cookies b)
             \<and> pathname b' = pathname b
             \<and> isAuthenticated a' \<and> user a' = u)"
proof (cases "truthy u")
  case False
  with assms show ?thesis by (simp add: login_def)
next
  case True
  then obtain role where role: "get_prop u ''role'' = Inr role"
    by (cases u) auto
  show ?thesis
  proof (cases "role = Str ''admin''")
    case False
    with True role assms show ?thesis by (simp add: login_def)
  next
    case adm: True
    with True role assms show ?thesis
      by (simp add: login_def Let_def setItem_def set_document_cookie_def getItem_def
          seven_days AList.update_conv')
  qed
qed

theorem login_outcomes_witness:
  "getItem ''admin_token'' (fst (snd (login backend_admin ''root@shop.test'' ''secret''
      (login_page_browser, signed_out)))) = Some ''tok123''
   \<and> map_of (cookies (fst (snd (login backend_admin ''root@shop.test'' ''secret''
      (login_page_browser, signed_out))))) ''admin_token'' = Some ''tok123''
   \<and> isAuthenticated (snd (snd (login backend_admin ''root@shop.test'' ''secret''
      (login_page_browser, signed_out))))
   \<and> login backend_customer ''ann@shop.test'' ''secret'' (login_page_browser, signed_out)
       = (Inl (Error ''Access denied. Admin privileges required.''), login_page_browser, signed_out)"
  using
    login_outcomes [of backend_admin "''root@shop.test''" "''secret''"
      "envelope (Obj [(''access_token'', Str ''tok123''), (''user'', admin_user)])
         (Str ''2024-01-01T00:00:00Z'')"
      "Obj [(''access_token'', Str ''tok123''), (''user'', admin_user)]"
      "Str ''tok123''" admin_user login_page_browser signed_out]
    login_outcomes [of backend_customer "''ann@shop.test''" "''secret''"
      "Obj [(''access_token'', Str ''tok456''), (''user'', customer_user)]"
      "Obj [(''access_token'', Str ''tok456''), (''user'', customer_user)]"
      "Str ''tok456''" customer_user login_page_browser signed_out]
  by (simp add: backend_admin_def backend_customer_def admin_user_def customer_user_def
      unwrap_def envelope_def cookie_assign_def trim_def is_space_def
      login_page_browser_def split: prod.splits)

text \<open>The claim as stated fails for the response without a user: the error thrown there is
  not the access-denied one.\<close>

theorem login_missing_user_counterexample:
  "fst (login backend_no_user ''root@shop.test'' ''secret'' (login_page_browser, signed_out))
     = Inl (Error ''Invalid response: user data missing'')
   \<and> fst (login backend_no_user ''root@shop.test'' ''secret'' (login_page_browser, signed_out))
     \<noteq> Inl (Error ''Access denied. Admin privileges required.'')"
  by (simp add: login_def backend_no_user_def unwrap_def)

section \<open>The round trip through the edit form\<close>

lemma split_on_no_sep: "sep \<notin> set x \<Longrightarrow> split_on sep x = [x]"
  by (induction x) auto

lemma split_variants_normal: "normal_entries xs \<Longrightarrow> split_variants xs = xs"
proof (induction xs)
  case Nil
  then show ?case by (simp add: split_variants_def)
next
  case (Cons x xs)
  then have "split_variants xs = xs" and "trim x = x" and "CHR '','' \<notin> set x" and "x \<noteq> []"
    by (simp_all add: normal_entries_def)
  then show ?case
    by (simp add: split_variants_def split_on_no_sep)
qed

lemma or_undefined_or_empty: "x \<noteq> Some [] \<Longrightarrow> or_undefined (or_empty x) = x"
  by (cases x) (auto simp: or_undefined_def)

lemma number_round_trip:
  "Number (toString x) = Some x \<Longrightarrow> number_or_zero Number (toString x) = x"
  by (simp add: number_or_zero_def)

lemma trim_Nil: "trim [] = []"
  by (simp add: trim_def)

lemma filter_all: "list_all P xs \<Longrightarrow> filter P xs = xs"
  by (simp add: list_all_iff filter_id_conv)

lemma openEditModal_requests: "requests (openEditModal toString product p) = requests p"
  by (simp add: openEditModal_def Let_def)

lemma handleSubmit_first_request:
  "dataToSend Number (formData p) = Inr d \<Longrightarrow>
   take 1 (issued p (handleSubmit Number send get p)) = [submit_request (editingProduct p) d]"
  by (simp add: handleSubmit_def Let_def issued_def addNotification_def fetchProducts_def
      closeProductModal_def split: sum.splits)

text \<open>
  Claim C4, amended. Let a product be stored in full and in normal form: it has a
  description, specifications, the three lists of variants and the three translations; its
  category and badge, when present, are not empty; no image URL is blank; its colours are
  names; every variant is trimmed, not empty and free of commas; and its price and stock
  survive the conversion to text and back, as every finite JavaScript number does. Then
  opening the edit form on it and submitting without a change issues a PATCH to
  \<^verbatim>\<open>/products/<id>\<close> whose body repeats the fields of the record, with the slug derived
  from the name.
\<close>

theorem edit_submit_round_trip:
  assumes "product.description product = Some descr"
    and "product.categoryId product \<noteq> Some []"
    and "product.badge product \<noteq> Some []"
    and "list_all (\<lambda>img. trim img \<noteq> []) (product.images product)"
    and "product.specs product = Some sp"
    and "product.variants product =
           Some \<lparr>stored_variants.colors = Some (Names cs), stored_variants.storage = Some st,
                 stored_variants.versions = Some vs\<rparr>"
    and "normal_entries cs" and "normal_entries st" and "normal_entries vs"
    and "product.translations' product =
           Some \<lparr>stored_translations.en = Some t1, stored_translations.ru = Some t2,
                 stored_translations.ar = Some t3\<rparr>"
    and "Number (toString (product.price product)) = Some (product.price product)"
    and "Number (toString (product.stock product)) = Some (product.stock product)"
  shows "\<exists>d. dataToSend Number (formData (openEditModal toString product p)) = Inr d
             \<and> spec_payload_matches product d
             \<and> take 1 (issued p (handleSubmit Number send get (openEditModal toString product p)))
                 = [Patch (''/products/'' @ product.id' product) (ProductData d)]"
proof -
  let ?p = "openEditModal toString product p"
  let ?d = "\<lparr>payload.name = product.name product,
              payload.description = descr,
              payload.slug = generateSlug (product.name product),
              payload.images = product.images product,
              payload.price = product.price product,
              payload.stock = product.stock product,
              payload.categoryId = product.categoryId product,
              payload.featured = product.featured product,
              payload.badge = product.badge product,
              payload.specs = sp,
              payload.variants =
                \<lparr>variants.colors = cs, variants.storage = st, variants.versions = vs\<rparr>,
              payload.translations' =
                \<lparr>form_translations.en = t1, form_translations.ru = t2,
                 form_translations.ar = t3\<rparr>\<rparr>"
  have d: "dataToSend Number (formData ?p) = Inr ?d"
    using assms
    by (simp add: dataToSend_def openEditModal_def Let_def normalize_colors_def split_colors_def
        split_variants_normal or_undefined_or_empty number_round_trip trim_Nil filter_all)
  have m: "spec_payload_matches product ?d"
    using assms by (simp add: spec_payload_matches_def)
  have e: "editingProduct ?p = Some product"
    by (simp add: openEditModal_def Let_def)
  have "take 1 (issued ?p (handleSubmit Number send get ?p)) =
          [Patch (''/products/'' @ product.id' product) (ProductData ?d)]"
    using handleSubmit_first_request [OF d, of send get] by (simp add: e submit_request_def)
  then have r: "take 1 (issued p (handleSubmit Number send get ?p)) =
          [Patch (''/products/'' @ product.id' product) (ProductData ?d)]"
    by (simp add: issued_def openEditModal_requests)
  from d m r show ?thesis by blast
qed

lemma slug_example: "generateSlug ''iPhone 15 Pro!'' = ''iphone-15-pro''"
  by code_simp

lemma slug_phone: "generateSlug ''Phone'' = ''phone''"
  by code_simp

lemma read_show_examples:
  "read_int (show_int 1299) = Some 1299"
  "read_int (show_int 5) = Some 5"
  "read_int (show_int 99) = Some 99"
  "read_int (show_int 0) = Some 0"
  by (simp_all add: show_int_def show_nat.simps digit_char_def read_int_def digit_value_def)

theorem edit_submit_round_trip_witness:
  "\<exists>d. dataToSend read_int (formData (openEditModal show_int iphone initial_products_page)) = Inr d
       \<and> spec_payload_matches iphone d
       \<and> payload.slug d = ''iphone-15-pro''
       \<and> take 1 (issued initial_products_page
                    (handleSubmit read_int submit_backend_down failing_backend
                       (openEditModal show_int iphone initial_products_page)))
           = [Patch ''/products/p1'' (ProductData d)]"
proof -
  have imgs: "list_all (\<lambda>img. trim img \<noteq> []) (product.images iphone)"
    by (simp add: iphone_def trim_def is_space_def)
  have cs: "normal_entries [''Black'', ''Natural Titanium'']"
    by (simp add: normal_entries_def trim_def is_space_def)
  have st: "normal_entries [''128GB'', ''256GB'']"
    by (simp add: normal_entries_def trim_def is_space_def)
  have vs: "normal_entries []"
    by (simp add: normal_entries_def)
  have price: "read_int (show_int (product.price iphone)) = Some (product.price iphone)"
    and stock: "read_int (show_int (product.stock iphone)) = Some (product.stock iphone)"
    by (simp_all add: iphone_def read_show_examples)
  have "\<exists>d. dataToSend read_int (formData (openEditModal show_int iphone initial_products_page)) = Inr d
       \<and> spec_payload_matches iphone d
       \<and> take 1 (issued initial_products_page
                    (handleSubmit read_int submit_backend_down failing_backend
                       (openEditModal show_int iphone initial_products_page)))
           = [Patch (''/products/'' @ product.id' iphone) (ProductData d)]"
    by (rule edit_submit_round_trip [where descr = "''Titanium design''", OF _ _ _ imgs _ _ cs st vs _ price stock])
       (simp_all add: iphone_def)
  then show ?thesis
    by (auto simp: spec_payload_matches_def slug_example) (simp_all add: iphone_def slug_example)
qed

text \<open>The claim as stated fails on a product stored before colour names and translations
  were: the body sent holds the names of its colours in place of the stored objects, and
  three translations the record does not have.\<close>

theorem legacy_phone_counterexample:
  "dataToSend read_int (formData (openEditModal show_int legacy_phone initial_products_page))
     = Inr legacy_phone_payload
   \<and> \<not> spec_payload_matches legacy_phone legacy_phone_payload"
proof -
  have "dataToSend read_int (formData (openEditModal show_int legacy_phone initial_products_page))
     = Inr legacy_phone_payload"
    by (simp add: dataToSend_def openEditModal_def Let_def legacy_phone_def normalize_colors_def
        split_colors_def split_variants_def legacy_phone_payload_def trim_def is_space_def
        or_undefined_def number_or_zero_def read_show_examples slug_phone)
  moreover have "\<not> spec_payload_matches legacy_phone legacy_phone_payload"
    by (simp add: spec_payload_matches_def legacy_phone_def)
  ultimately show ?thesis by simp
qed


section \<open>Properties of the Orders page\<close>

lemma updateStatus_requests:
  "requests (updateStatus patch get oid st p) =
     requests p @ [Patch (''/orders/'' @ oid @ ''/status'') (Obj [(''status'', Str st)])]
     @ (case patch (''/orders/'' @ oid @ ''/status'') (Obj [(''status'', Str st)]) of
          Inl e \<Rightarrow> [] | Inr r \<Rightarrow> [Get ''/orders/admin/all''])"
  by (simp add: updateStatus_def Let_def addNotification_def fetchOrders_def split: sum.splits)

text \<open>
  Claim C5. For every order, choosing \<^verbatim>\<open>delivered\<close> issues exactly one PATCH, to
  \<^verbatim>\<open>/orders/<id>/status\<close> with the body \<^verbatim>\<open>{ status: "delivered" }\<close>, whether the backend
  accepts it or not. When it is accepted and the detail modal shows that order, the order
  shown is updated in place: it keeps every property and has the status \<^verbatim>\<open>delivered\<close>,
  the modal stays as it was, and the value does not come from a fetch: besides the PATCH the
  handler issues only the fetch of the list, whose outcome the order shown does not depend
  on.
\<close>

theorem updateStatus_delivered:
  "filter is_patch (requests (updateStatus patch get oid ''delivered'' p)) =
     filter is_patch (requests p)
     @ [Patch (''/orders/'' @ oid @ ''/status'') (Obj [(''status'', Str ''delivered'')])]
   \<and> (patch (''/orders/'' @ oid @ ''/status'') (Obj [(''status'', Str ''delivered'')]) = Inr r
        \<and> selectedOrder p = Obj kvs \<and> map_of kvs ''id'' = Some (Str oid)
      \<longrightarrow> selectedOrder (updateStatus patch get oid ''delivered'' p) =
            Obj (AList.update ''status'' (Str ''delivered'') kvs)
          \<and> map_of (own_props (selectedOrder (updateStatus patch get oid ''delivered'' p))) =
            (map_of kvs)(''status'' \<mapsto> Str ''delivered'')
          \<and> showModal (updateStatus patch get oid ''delivered'' p) = showModal p
          \<and> issued p (updateStatus patch get oid ''delivered'' p) =
            [Patch (''/orders/'' @ oid @ ''/status'') (Obj [(''status'', Str ''delivered'')]),
             Get ''/orders/admin/all''])"
proof -
  have one: "filter is_patch (requests (updateStatus patch get oid ''delivered'' p)) =
     filter is_patch (requests p)
     @ [Patch (''/orders/'' @ oid @ ''/status'') (Obj [(''status'', Str ''delivered'')])]"
    by (simp add: updateStatus_requests split: sum.splits)
  have upd: "selectedOrder (updateStatus patch get oid ''delivered'' p) =
            Obj (AList.update ''status'' (Str ''delivered'') kvs)"
    and modal: "showModal (updateStatus patch get oid ''delivered'' p) = showModal p"
    if "patch (''/orders/'' @ oid @ ''/status'') (Obj [(''status'', Str ''delivered'')]) = Inr r"
      and "selectedOrder p = Obj kvs" and "map_of kvs ''id'' = Some (Str oid)"
    using that
    by (simp_all add: updateStatus_def Let_def addNotification_def fetchOrders_def)
  have iss: "issued p (updateStatus patch get oid ''delivered'' p) =
            [Patch (''/orders/'' @ oid @ ''/status'') (Obj [(''status'', Str ''delivered'')]),
             Get ''/orders/admin/all'']"
    if "patch (''/orders/'' @ oid @ ''/status'') (Obj [(''status'', Str ''delivered'')]) = Inr r"
    using that by (simp add: issued_def updateStatus_requests)
  show ?thesis
    using one upd modal iss by (simp add: AList.update_conv')
qed

theorem updateStatus_delivered_witness:
  "selectedOrder (updateStatus accepting_backend failing_backend ''o7'' ''delivered'' modal_open_page) =
     Obj [(''id'', Str ''o7''), (''status'', Str ''delivered''), (''total'', Num 1299),
          (''items'', Arr [Obj [(''id'', Str ''i1''), (''quantity'', Num 1)]])]
   \<and> issued modal_open_page
        (updateStatus accepting_backend failing_backend ''o7'' ''delivered'' modal_open_page) =
       [Patch ''/orders/o7/status'' (Obj [(''status'', Str ''delivered'')]),
        Get ''/orders/admin/all'']"
  using updateStatus_delivered [of accepting_backend failing_backend "''o7''" modal_open_page
      "Obj [(''ok'', Bool True)]"
      "[(''id'', Str ''o7''), (''status'', Str ''shipped''), (''total'', Num 1299),
          (''items'', Arr [Obj [(''id'', Str ''i1''), (''quantity'', Num 1)]])]"]
  by (simp add: accepting_backend_def modal_open_page_def shipped_order_def)


lemma updateStatus_patches:
  "filter is_patch (issued p (updateStatus patch get oid st p)) =
     [Patch (''/orders/'' @ oid @ ''/status'') (Obj [(''status'', Str st)])]"
  by (simp add: issued_def updateStatus_requests split: sum.splits)

lemma closeOrder_patches:
  "filter is_patch (issued p (closeOrder patch get oid p)) =
     [Patch (''/orders/'' @ oid @ ''/status'') (Obj [(''status'', Str ''delivered'')])]"
  using updateStatus_patches [of p patch get oid "''delivered''"]
  by (simp add: closeOrder_def closeModal_def addNotification_def issued_def)

lemma spec_transition_options:
  "spec_transition cur v \<Longrightarrow> v \<in> set status_options \<and> v \<noteq> cur"
  by (auto simp: spec_transition_def status_options_def)

text \<open>
  Claim C6, amended. The status select bound to an order, in the table and in the modal,
  issues a PATCH for whichever of the five statuses is chosen, provided it differs from the
  current one: every step of the chain and every cancellation can be issued, and so can any
  other change, out of a terminal status too. Only the Close Order button depends on the
  status: it is offered unless the order is delivered or cancelled, and it issues one PATCH
  to \<^verbatim>\<open>delivered\<close>.
\<close>

theorem order_controls:
  assumes "get_prop order ''id'' = Inr (Str oid)"
    and "get_prop order ''status'' = Inr (Str cur)"
  shows
    "status_select patch get order v p =
       (if v \<in> set status_options \<and> v \<noteq> cur
        then Some (updateStatus patch get oid v p) else None)
     \<and> filter is_patch (issued p (updateStatus patch get oid v p)) =
         [Patch (''/orders/'' @ oid @ ''/status'') (Obj [(''status'', Str v)])]
     \<and> close_order_button patch get order p =
       (if cur = ''delivered'' \<or> cur = ''cancelled''
        then None else Some (closeOrder patch get oid p))
     \<and> filter is_patch (issued p (closeOrder patch get oid p)) =
         [Patch (''/orders/'' @ oid @ ''/status'') (Obj [(''status'', Str ''delivered'')])]
     \<and> (spec_transition cur v \<longrightarrow> status_select patch get order v p \<noteq> None)"
proof -
  have s: "status_select patch get order v p =
       (if v \<in> set status_options \<and> v \<noteq> cur
        then Some (updateStatus patch get oid v p) else None)"
    using assms by (auto simp: status_select_def)
  have c: "close_order_button patch get order p =
       (if cur = ''delivered'' \<or> cur = ''cancelled''
        then None else Some (closeOrder patch get oid p))"
    using assms by (auto simp: close_order_button_def)
  have t: "spec_transition cur v \<longrightarrow> status_select patch get order v p \<noteq> None"
    using spec_transition_options [of cur v] by (simp add: s)
  show ?thesis
    using s c t updateStatus_patches closeOrder_patches by blast
qed

theorem order_controls_witness:
  "status_select accepting_backend failing_backend shipped_order ''pending'' modal_open_page =
     Some (updateStatus accepting_backend failing_backend ''o7'' ''pending'' modal_open_page)
   \<and> close_order_button accepting_backend failing_backend shipped_order modal_open_page =
     Some (closeOrder accepting_backend failing_backend ''o7'' modal_open_page)
   \<and> status_select accepting_backend failing_backend shipped_order ''delivered'' modal_open_page
     \<noteq> None"
  using order_controls [of shipped_order "''o7''" "''shipped''" accepting_backend failing_backend
      "''pending''" modal_open_page]
    order_controls [of shipped_order "''o7''" "''shipped''" accepting_backend failing_backend
      "''delivered''" modal_open_page]
  by (simp add: shipped_order_def status_options_def spec_transition_def)

text \<open>The claim as stated fails on a delivered order: the select of its row issues the
  change to \<^verbatim>\<open>pending\<close>.\<close>

theorem delivered_to_pending_counterexample:
  "row_select_change accepting_backend failing_backend 0 ''pending'' delivered_page =
     Some (updateStatus accepting_backend failing_backend ''o1'' ''pending'' delivered_page)
   \<and> issued delivered_page
        (updateStatus accepting_backend failing_backend ''o1'' ''pending'' delivered_page) =
       [Patch ''/orders/o1/status'' (Obj [(''status'', Str ''pending'')]),
        Get ''/orders/admin/all'']
   \<and> \<not> spec_transition ''delivered'' ''pending''"
  by (simp add: row_select_change_def status_select_def delivered_page_def status_options_def
      issued_def updateStatus_requests accepting_backend_def spec_transition_def)


section \<open>Properties of the list fetch and of the envelope\<close>

lemma failed_list: "fetch_failed outcome \<Longrightarrow> list_fetched outcome = []"
  by (auto simp: fetch_failed_def list_fetched_def split: sum.splits)

text \<open>
  Claim C7. On each of the five pages that hold a collection (Products, Categories, Orders,
  FAQ, About Us), when the list fetch fails, by a rejected call of any kind or by a body
  that cannot be read, the collection is set to the empty list whatever it held before, and
  the loading indicator is cleared.
\<close>

theorem list_fetch_failure_resets:
  "(fetch_failed (get ''/products'') \<longrightarrow>
      products (fetchProducts get pp) = [] \<and> \<not> loading (fetchProducts get pp))
   \<and> (fetch_failed (get ''/categories'') \<longrightarrow>
      categories_page.categories (fetchCategories get pc) = [] \<and> \<not> loading (fetchCategories get pc))
   \<and> (fetch_failed (get ''/orders/admin/all'') \<longrightarrow>
      orders (fetchOrders get po) = [] \<and> \<not> loading (fetchOrders get po))
   \<and> (fetch_failed (get ''/settings/faq'') \<longrightarrow>
      faqs (fetchFAQs get pf) = [] \<and> \<not> loading (fetchFAQs get pf))
   \<and> (fetch_failed (get ''/settings/about-us'') \<longrightarrow>
      aboutUsSections (fetchAboutUs get pa) = [] \<and> \<not> loading (fetchAboutUs get pa))"
  by (simp add: failed_list fetchProducts_def fetchCategories_def fetchOrders_def fetchFAQs_def
      fetchAboutUs_def)

theorem list_fetch_failure_resets_witness:
  "fetch_failed (failing_backend ''/products'')
   \<and> products stale_products_page \<noteq> []
   \<and> products (fetchProducts failing_backend stale_products_page) = []
   \<and> \<not> loading (fetchProducts failing_backend stale_products_page)
   \<and> categories_page.categories (fetchCategories failing_backend stale_categories_page) = []
   \<and> \<not> loading (fetchCategories failing_backend stale_categories_page)
   \<and> orders stale_orders_page \<noteq> []
   \<and> orders (fetchOrders failing_backend stale_orders_page) = []
   \<and> \<not> loading (fetchOrders failing_backend stale_orders_page)
   \<and> faqs (fetchFAQs failing_backend stale_faq_page) = []
   \<and> \<not> loading (fetchFAQs failing_backend stale_faq_page)
   \<and> aboutUsSections (fetchAboutUs failing_backend stale_about_us_page) = []
   \<and> \<not> loading (fetchAboutUs failing_backend stale_about_us_page)"
  using list_fetch_failure_resets [of failing_backend stale_products_page stale_categories_page
      stale_orders_page stale_faq_page stale_about_us_page]
  by (simp add: failing_backend_def fetch_failed_def stale_products_page_def
      stale_orders_page_def)

lemma show_nat_last: "last (show_nat n) = digit_char (n mod 10)"
  by (subst show_nat.simps) simp

lemma digit_char_not_a: "d < 10 \<Longrightarrow> digit_char d \<noteq> CHR ''a''"
proof -
  assume "d < 10"
  then have "digit_char d \<in> set ''0123456789''"
    by (simp add: digit_char_def del: set_simps)
  then show ?thesis by auto
qed

lemma show_nat_not_data: "show_nat n \<noteq> ''data''"
proof
  assume "show_nat n = ''data''"
  then have "last (show_nat n) = CHR ''a''" by simp
  then have "digit_char (n mod 10) = CHR ''a''" by (simp add: show_nat_last)
  moreover have "n mod 10 < 10" by simp
  ultimately show False using digit_char_not_a by blast
qed

lemma index_props_no_data: "map_of (zip (map show_nat ns) vs) ''data'' = None"
proof -
  have "''data'' \<notin> set (map show_nat ns)"
    using show_nat_not_data by (auto simp: image_iff) metis
  then have "''data'' \<notin> fst ` set (zip (map show_nat ns) vs)"
    by (metis (no_types, lifting) image_iff in_set_zipE prod.collapse)
  then show ?thesis by (simp add: map_of_eq_None_iff)
qed

lemma unwrap_array: "unwrap (Arr xs) = Inr (Arr xs)"
  by (simp add: unwrap_def index_props_no_data)






section \<open>The token of a request\<close>

lemma request_interceptor_local_token:
  "getItem ''admin_token'' b = Some token \<Longrightarrow> token \<noteq> [] \<Longrightarrow>
   headers (request_interceptor b config) =
     AList.update ''Authorization'' (''Bearer '' @ token) (headers config)"
  by (simp add: request_interceptor_def stored_token_def)

lemma request_interceptor_no_token:
  "getItem ''admin_token'' b = None \<Longrightarrow> cookies b = [] \<Longrightarrow>
   request_interceptor b config = config"
  by (simp add: request_interceptor_def stored_token_def document_cookie_def startsWith_def trim_def)

text \<open>
  Claim C9 at a token that ends in an equals sign. The login writes the whole token to the
  cookie; once local storage is empty the interceptor reads the cookie back, splits it at
  every equals sign and keeps the second piece, so the header carries the token without its
  last character.
\<close>

theorem cookie_token_truncated:
  "cookies (fst (snd (login backend_padded_token ''root@shop.test'' ''secret''
      (login_page_browser, signed_out)))) = [(''admin_token'', ''YWRtaW4='')]
   \<and> document_cookie cookie_only_browser = ''admin_token=YWRtaW4=''
   \<and> headers (request_interceptor cookie_only_browser products_request) =
       [(''Content-Type'', ''application/json''), (''Authorization'', ''Bearer YWRtaW4'')]"
  by (simp add: login_def backend_padded_token_def unwrap_def envelope_def admin_user_def
      login_page_browser_def setItem_def set_document_cookie_def cookie_assign_def trim_def
      is_space_def show_nat.simps digit_char_def
      document_cookie_def cookie_only_browser_def request_interceptor_def stored_token_def
      getItem_def startsWith_def products_request_def)

section \<open>The image fields of the Products form\<close>

lemma image_fields_kept:
  "images (formData (openAddModal p)) \<noteq> []"
  "images (formData (openEditModal toString product p)) \<noteq> []"
  "images (formData p) \<noteq> [] \<Longrightarrow> images (formData (addImageField p)) \<noteq> []"
  "images (formData (removeImageField i p)) \<noteq> []"
  "images (formData p) \<noteq> [] \<Longrightarrow> images (formData (updateImageField i v p)) \<noteq> []"
  by (simp_all add: openAddModal_def empty_form_def openEditModal_def Let_def addImageField_def
      removeImageField_def updateImageField_def)

text \<open>
  Claim C10 at an upload that returns no image. The form opened by \<^verbatim>\<open>openAddModal\<close> has
  one empty image field; \<^verbatim>\<open>handleImageUpload\<close> drops the empty fields and appends the
  uploaded images, none here, and leaves the empty list.
\<close>

theorem upload_empties_images:
  "images (formData (openAddModal initial_products_page)) = [[]]
   \<and> images (formData (handleImageUpload upload_backend_no_images [png_file]
                          (openAddModal initial_products_page))) = []"
  by (simp add: openAddModal_def empty_form_def handleImageUpload_def png_file_def
      startsWith_def upload_backend_no_images_def uploadedImages_def Let_def addNotification_def)


end
